theory Spec2Isabelle
  imports Main "HOL-Library.Word" "HOL-Library.Sublist"
begin

section \<open>Bytes, errors and outcomes\<close>

type_synonym byte = "8 word"

text \<open>
  Go errors are values. The constructors name the failures that the modelled code can
  observe: the encoder's refusal of a value, a failed load of the accounts file, a
  failed connection, a failure reported by the remote node, and the failures of the
  account operations behind the REPL's \<open>Client\<close> interface.
\<close>

datatype error =
    ErrUnsupportedType
  | CorruptStoreError
  | ConnectError
  | RemoteError
  | DuplicateAliasError
  | NoCurrentAccountError
  | IndexOutOfRangeError
  | IOError

text \<open>
  A Go call either returns or panics; a panic unwinds through every caller that does not
  recover, and none of the modelled functions recovers.
\<close>

datatype 'a outcome = Panic string | Return 'a

section \<open>The encoder behind \<open>InterfaceToBytes\<close>\<close>

text \<open>
  \<open>InterfaceToBytes\<close> hands its argument to \<open>xdr.Marshal\<close>, which walks the value by
  reflection. \<open>go_value\<close> is the reflected shape of a value: the kinds that occur in a
  transaction (unsigned 64-bit integers, fixed byte arrays, structs, pointers) and one
  kind the encoder refuses (channels, functions, complex numbers).
\<close>

datatype go_value =
    Uint64 "64 word"
  | ByteArray "byte list"
  | Struct "go_value list"
  | Pointer go_value
  | Unsupported

text \<open>An unsigned hyper integer is eight bytes, most significant first.\<close>

definition EncodeUhyper :: "64 word \<Rightarrow> byte list" where
  "EncodeUhyper v = map (\<lambda>i. ucast (drop_bit (8 * i) v)) [7, 6, 5, 4, 3, 2, 1, 0 :: nat]"

text \<open>Fixed opaque data is written as it is and padded with zero bytes to a multiple of four.\<close>

definition EncodeFixedOpaque :: "byte list \<Rightarrow> byte list" where
  "EncodeFixedOpaque v = v @ replicate ((4 - length v mod 4) mod 4) 0"

text \<open>
  A struct is the encodings of its fields in declaration order; a pointer is followed
  to the value it points to; the first failure ends the encoding.
\<close>

fun encode :: "go_value \<Rightarrow> error + byte list"
  and encodeStruct :: "go_value list \<Rightarrow> error + byte list" where
  "encode (Uint64 v) = Inr (EncodeUhyper v)"
| "encode (ByteArray bs) = Inr (EncodeFixedOpaque bs)"
| "encode (Struct fs) = encodeStruct fs"
| "encode (Pointer v) = encode v"
| "encode Unsupported = Inl ErrUnsupportedType"
| "encodeStruct [] = Inr []"
| "encodeStruct (f # fs) =
     (case encode f of
        Inl e \<Rightarrow> Inl e
      | Inr b \<Rightarrow> (case encodeStruct fs of Inl e \<Rightarrow> Inl e | Inr bs \<Rightarrow> Inr (b @ bs)))"

text \<open>
  \<open>Marshal\<close> writes into a fresh buffer, so its result is the bytes written or the error.
\<close>

definition Marshal :: "go_value \<Rightarrow> error + byte list" where
  "Marshal v = encode v"

text \<open>
  \<^verbatim>\<open>
  func InterfaceToBytes(i interface{}) ([]byte, error) {
      var w bytes.Buffer
      if _, err := xdr.Marshal(&w, &i); err != nil { return nil, err }
      return w.Bytes(), nil
  }
  \<close>
  The encoder receives a pointer to the interface value.
\<close>

definition InterfaceToBytes :: "go_value \<Rightarrow> error + byte list" where
  "InterfaceToBytes i = (case Marshal (Pointer i) of Inl err \<Rightarrow> Inl err | Inr bs \<Rightarrow> Inr bs)"

section \<open>Transactions\<close>

text \<open>
  Modelled from the spec: the declarations of \<open>InnerSerializableSignedTransaction\<close> and
  \<open>SerializableSignedTransaction\<close> (package \<open>common\<close>) are not among the sources. The
  fields are those \<open>Transfer\<close> assigns; their declaration order (nonce, amount,
  recipient address, gas limit, gas price, then the 64-byte signature after the embedded
  inner struct) and their widths are the spec's.
\<close>

definition AddressLength :: nat where
  "AddressLength = 20"

definition SignatureSize :: nat where
  "SignatureSize = 64"

definition PrivateKeySize :: nat where
  "PrivateKeySize = 64"

record InnerSerializableSignedTransaction =
  AccountNonce :: "64 word"
  Amount :: "64 word"
  Recipient :: "byte list"
  GasLimit :: "64 word"
  Price :: "64 word"

record SerializableSignedTransaction =
  Inner :: InnerSerializableSignedTransaction
  Signature :: "byte list"

text \<open>The zero value \<open>common.SerializableSignedTransaction{}\<close>.\<close>

definition zero_tx :: SerializableSignedTransaction where
  "zero_tx =
     \<lparr>Inner = \<lparr>AccountNonce = 0, Amount = 0, Recipient = replicate AddressLength 0,
                GasLimit = 0, Price = 0\<rparr>,
      Signature = replicate SignatureSize 0\<rparr>"

text \<open>What reflection sees of the two structs.\<close>

definition inner_value :: "InnerSerializableSignedTransaction \<Rightarrow> go_value" where
  "inner_value t =
     Struct [Uint64 (AccountNonce t), Uint64 (Amount t), ByteArray (Recipient t),
             Uint64 (GasLimit t), Uint64 (Price t)]"

definition signed_value :: "SerializableSignedTransaction \<Rightarrow> go_value" where
  "signed_value t = Struct [inner_value (Inner t), ByteArray (Signature t)]"

section \<open>Signing\<close>

text \<open>
  \<open>ed25519.Sign2\<close> returns the signature and has no error result: given a private key
  whose length is not \<open>PrivateKeySize\<close> it panics. The signature arithmetic itself is a
  parameter \<open>signer\<close> (key, then message).
\<close>

definition Sign2 :: "(byte list \<Rightarrow> byte list \<Rightarrow> byte list) \<Rightarrow> byte list \<Rightarrow> byte list
    \<Rightarrow> byte list outcome" where
  "Sign2 signer privateKey message =
     (if length privateKey \<noteq> PrivateKeySize then Panic ''ed25519: bad private key length''
      else Return (signer privateKey message))"

text \<open>
  Go's \<open>copy(dst, src)\<close> overwrites the first \<open>min (len dst) (len src)\<close> elements of
  \<open>dst\<close> and leaves the rest.
\<close>

definition copy :: "'a list \<Rightarrow> 'a list \<Rightarrow> 'a list" where
  "copy dst src = take (length dst) src @ drop (length src) dst"

section \<open>The wallet backend\<close>

text \<open>
  Modelled from the spec: \<open>common.LocalAccount\<close> and \<open>common.Store\<close> are declared in
  package \<open>common\<close>, which is not among the sources. An account is an alias with its key
  pair; the store is the ordered sequence of accounts.
\<close>

record LocalAccount =
  Name :: string
  PubKey :: "byte list"
  PrivKey :: "byte list"

type_synonym Store = "LocalAccount list"

text \<open>
  \<^verbatim>\<open>
  type WalletBackend struct {
      *GRPCClient // Embedded interface
      common.Store
      accountsFilePath string
      currentAccount   *common.LocalAccount
  }
  \<close>
  The state of the embedded gRPC client is the type parameter \<open>'g\<close>; a nil
  \<open>currentAccount\<close> is \<open>None\<close>.
\<close>

record 'g WalletBackend =
  GRPCClient :: 'g
  Store :: Store
  accountsFilePath :: string
  currentAccount :: "LocalAccount option"

text \<open>
  What the backend calls and does not define itself: \<open>path.Join\<close>, the loader of the
  accounts file, the gRPC client (construction, connection, submission of a coin
  transaction, each a function of the client's state) and the signature arithmetic.
  \<open>'r\<close> is the remote node's transaction state.
\<close>

record ('g, 'r) collaborators =
  path_Join :: "string \<Rightarrow> string \<Rightarrow> string"
  LoadAccounts :: "string \<Rightarrow> error + Store"
  NewGRPCClient :: "string \<Rightarrow> nat \<Rightarrow> 'g"
  Connect :: "'g \<Rightarrow> error option \<times> 'g"
  SubmitCoinTransaction :: "byte list \<Rightarrow> 'g \<Rightarrow> (error + 'r) \<times> 'g"
  ed25519_sign :: "byte list \<Rightarrow> byte list \<Rightarrow> byte list"

definition accountsFileName :: string where
  "accountsFileName = ''accounts.json''"

text \<open>A line written by \<open>log.Error\<close>: the format, its string arguments and its error.\<close>

datatype log_entry = LogError string "string list" error

text \<open>
  \<^verbatim>\<open>
  func NewWalletBackend(dataDir string, grpcServer string, grpcPort uint) (*WalletBackend, error) {
      accountsFilePath := path.Join(dataDir, accountsFileName)
      acc, err := common.LoadAccounts(accountsFilePath)
      if err != nil {
          log.Error("cannot load account from file %s: %s", accountsFilePath, err)
          acc = &common.Store{}
      }
      grpcClient := NewGRPCClient(grpcServer, grpcPort)
      err = grpcClient.Connect()
      if err != nil { return nil, err }
      return &WalletBackend{grpcClient, *acc, accountsFilePath, nil}, nil
  }
  \<close>
  The result is paired with the lines logged.
\<close>

definition NewWalletBackend :: "('g, 'r) collaborators \<Rightarrow> string \<Rightarrow> string \<Rightarrow> nat
    \<Rightarrow> (error + 'g WalletBackend) \<times> log_entry list" where
  "NewWalletBackend env dataDir grpcServer grpcPort =
     (let path = path_Join env dataDir accountsFileName;
          (acc, logged) =
            (case LoadAccounts env path of
               Inl err \<Rightarrow> ([], [LogError ''cannot load account from file %s: %s'' [path] err])
             | Inr st \<Rightarrow> (st, []));
          grpcClient = NewGRPCClient env grpcServer grpcPort
      in case Connect env grpcClient of
           (Some err, _) \<Rightarrow> (Inl err, logged)
         | (None, connected) \<Rightarrow>
             (Inr \<lparr>GRPCClient = connected, Store = acc, accountsFilePath = path,
                   currentAccount = None\<rparr>, logged))"

definition WalletBackend_CurrentAccount :: "'g WalletBackend \<Rightarrow> LocalAccount option" where
  "WalletBackend_CurrentAccount w = currentAccount w"

definition WalletBackend_SetCurrentAccount :: "'g WalletBackend \<Rightarrow> LocalAccount option
    \<Rightarrow> 'g WalletBackend" where
  "WalletBackend_SetCurrentAccount w a = w\<lparr>currentAccount := a\<rparr>"

text \<open>
  \<^verbatim>\<open>
  func (w *WalletBackend) Transfer(recipient gosmtypes.Address, nonce, amount, gasPrice,
          gasLimit uint64, key ed25519.PrivateKey) (*pb.TransactionState, error) {
      tx := common.SerializableSignedTransaction{}
      tx.AccountNonce = nonce
      tx.Amount = amount
      tx.Recipient = recipient
      tx.GasLimit = gasLimit
      tx.Price = gasPrice
      buf, _ := InterfaceToBytes(&tx.InnerSerializableSignedTransaction)
      copy(tx.Signature[:], ed25519.Sign2(key, buf))
      b, err := InterfaceToBytes(&tx)
      if err != nil { return nil, err }
      return w.SubmitCoinTransaction(b)
  }
  \<close>
  The three stages are separate definitions: the transaction built from the arguments,
  the buffer that is signed (nil when the encoder fails, since the error is dropped),
  and the call itself, which returns the outcome together with the backend afterwards.
\<close>

definition Transfer_tx :: "byte list \<Rightarrow> 64 word \<Rightarrow> 64 word \<Rightarrow> 64 word \<Rightarrow> 64 word
    \<Rightarrow> SerializableSignedTransaction" where
  "Transfer_tx recipient nonce amount gasPrice gasLimit =
     zero_tx\<lparr>Inner := (Inner zero_tx)\<lparr>AccountNonce := nonce, Amount := amount,
                Recipient := recipient, GasLimit := gasLimit, Price := gasPrice\<rparr>\<rparr>"

definition Transfer_buf :: "SerializableSignedTransaction \<Rightarrow> byte list" where
  "Transfer_buf tx =
     (case InterfaceToBytes (Pointer (inner_value (Inner tx))) of Inl _ \<Rightarrow> [] | Inr buf \<Rightarrow> buf)"

definition Transfer :: "('g, 'r) collaborators \<Rightarrow> 'g WalletBackend \<Rightarrow> byte list \<Rightarrow> 64 word
    \<Rightarrow> 64 word \<Rightarrow> 64 word \<Rightarrow> 64 word \<Rightarrow> byte list
    \<Rightarrow> (error + 'r) outcome \<times> 'g WalletBackend" where
  "Transfer env w recipient nonce amount gasPrice gasLimit key =
     (let tx = Transfer_tx recipient nonce amount gasPrice gasLimit;
          buf = Transfer_buf tx
      in case Sign2 (ed25519_sign env) key buf of
           Panic msg \<Rightarrow> (Panic msg, w)
         | Return sg \<Rightarrow>
             (let tx = tx\<lparr>Signature := copy (Signature tx) sg\<rparr>
              in case InterfaceToBytes (Pointer (signed_value tx)) of
                   Inl err \<Rightarrow> (Return (Inl err), w)
                 | Inr b \<Rightarrow>
                     (case SubmitCoinTransaction env b (GRPCClient w) of
                        (res, g) \<Rightarrow> (Return res, w\<lparr>GRPCClient := g\<rparr>))))"

section \<open>The REPL\<close>

definition printPrefix :: string where
  "printPrefix = ''>''"

text \<open>
  A command's \<open>fn\<close> is a method value of the REPL. The methods are named by a datatype,
  one constructor for each method that \<open>initializeCommands\<close> mentions.
\<close>

datatype handler =
    fn_openWallet | fn_createWallet | fn_walletInfo | fn_closeWallet
  | fn_createAccount | fn_chooseAccount | fn_printAccountInfo | fn_printLocalAccountRewards
  | fn_sign | fn_signText | fn_printAccountTransactions | fn_submitCoinTransaction
  | fn_nodeInfo | fn_printMeshInfo | fn_printTransactionStatus
  | fn_printAccountState | fn_printAccountRewards | fn_printAccountRewardsStream
  | fn_printSmesherRewards | fn_printGlobalState
  | fn_printSmesherId | fn_printRewardsAddress | fn_setRewardsAddress
  | fn_printCurrentSmesherRewards | fn_stopSmeshing | fn_printSmeshingStatus
  | fn_printPostStatus | fn_printPostProviders | fn_startSmeshing
  | fn_printAllAccounts | fn_quit

record command =
  command_text :: string
  command_description :: string
  command_fn :: handler

text \<open>
  What the REPL writes: lines of \<open>fmt.Println\<close> (the arguments), lines of \<open>fmt.Printf\<close>
  about an account (the format and the account whose name and address are printed) and
  lines of \<open>log.Error\<close>.
\<close>

datatype console = Println "string list" | PrintfAccount string LocalAccount | Log log_entry

text \<open>
  \<^verbatim>\<open>
  type repl struct {
      commands   []command
      client     Client
      clientOpen bool
      input      string
  }
  \<close>
  \<open>client\<close> is the state of the client behind the interface; \<open>out\<close> collects what has
  been written to the terminal and the log.
\<close>

record 'c repl =
  commands :: "command list"
  client :: 'c
  clientOpen :: bool
  input :: string
  out :: "console list"

text \<open>
  The methods of the \<open>Client\<close> interface that the account commands call, each a function
  of the client's state:
  \<^verbatim>\<open>
  CreateAccount(alias string) (*common.LocalAccount, error)
  CurrentAccount() (*common.LocalAccount, error)
  SetCurrentAccount(accountNumber int) error
  ListAccounts() ([]string, error)
  StoreAccounts() error
  \<close>
\<close>

record 'c Client =
  CreateAccount :: "string \<Rightarrow> 'c \<Rightarrow> (error + LocalAccount) \<times> 'c"
  CurrentAccount :: "'c \<Rightarrow> (error + LocalAccount) \<times> 'c"
  SetCurrentAccount :: "int \<Rightarrow> 'c \<Rightarrow> error option \<times> 'c"
  ListAccounts :: "'c \<Rightarrow> (error + string list) \<times> 'c"
  StoreAccounts :: "'c \<Rightarrow> error option \<times> 'c"

text \<open>
  The operator: \<open>inputNotBlank\<close> answers a prompt with a line, \<open>multipleChoice\<close> answers
  a list of options with a number (0 for none). The prompts are constants declared
  outside the sources and are named, not spelled out.
\<close>

datatype prompt = createAccountMsg | enterAddressMsg | msgSignMsg | msgTextSignMsg

record operator =
  inputNotBlank :: "prompt \<Rightarrow> string"
  multipleChoice :: "string list \<Rightarrow> int"

definition console_write :: "console \<Rightarrow> 'c repl \<Rightarrow> 'c repl" where
  "console_write ln r = r\<lparr>out := out r @ [ln]\<rparr>"

text \<open>
  \<^verbatim>\<open>
  func (r *repl) initializeCommands() {
      accountCommands := []command{ {"wallet-open", ...}, {"wallet-create", ...} }
      if r.clientOpen { accountCommands = []command{ {"wallet-info", ...}, ... } }
      otherCommands := []command{ {"status-node", ...}, ..., {"quit", ...} }
      r.commands = append(accountCommands, otherCommands...)
  }
  \<close>
\<close>

definition cmd :: "string \<Rightarrow> string \<Rightarrow> handler \<Rightarrow> command" where
  "cmd t d f = \<lparr>command_text = t, command_description = d, command_fn = f\<rparr>"

definition accountCommands :: "bool \<Rightarrow> command list" where
  "accountCommands opened =
     (if opened then
        [cmd ''wallet-info'' ''Display wallet info'' fn_walletInfo,
         cmd ''wallet-close'' ''Close current wallet'' fn_closeWallet,
         cmd ''account-new'' ''Create a new account (key pair) and set as current''
           fn_createAccount,
         cmd ''account-set'' ''Set one of the previously created accounts as current''
           fn_chooseAccount,
         cmd ''account-info'' ''Display the current account info'' fn_printAccountInfo,
         cmd ''account-rewards'' ''Display all rewards awarded to the current account''
           fn_printLocalAccountRewards,
         cmd ''account-sign'' ''Sign a hex message with the current account private key''
           fn_sign,
         cmd ''account-text-sign''
           ''Sign a text message with the current account private key'' fn_signText,
         cmd ''account-txs''
           ''Display all outgoing and incoming transactions for the current account that are on the mesh''
           fn_printAccountTransactions,
         cmd ''account-send-coin'' ''Transfer coins from current account to another account''
           fn_submitCoinTransaction]
      else
        [cmd ''wallet-open'' ''Open a wallet'' fn_openWallet,
         cmd ''wallet-create'' ''Create a wallet'' fn_createWallet])"

definition otherCommands :: "command list" where
  "otherCommands =
     [cmd ''status-node'' ''Display node status'' fn_nodeInfo,
      cmd ''status-net'' ''Display network information'' fn_printMeshInfo,
      cmd ''status-tx'' ''Display a transaction status'' fn_printTransactionStatus,
      cmd ''state-account'' ''Display an account balance and nonce'' fn_printAccountState,
      cmd ''state-rewards'' ''Display an account rewards '' fn_printAccountRewards,
      cmd ''state-stream-rewards'' ''Stream new rewards for an account''
        fn_printAccountRewardsStream,
      cmd ''state-stream-account'' ''Stream account updates'' fn_printAccountRewardsStream,
      cmd ''state-smesher-rewards'' ''Display smesher rewards'' fn_printSmesherRewards,
      cmd ''state-global'' ''Display the most recent network global state''
        fn_printGlobalState,
      cmd ''smesher-id'' ''Display current smesher id'' fn_printSmesherId,
      cmd ''smesher-rewards-address'' ''Display current smesher rewards address''
        fn_printRewardsAddress,
      cmd ''smesher-set-rewards-address'' ''Set the smesher's rewards address''
        fn_setRewardsAddress,
      cmd ''smesher-rewards'' ''Display current smesher rewards''
        fn_printCurrentSmesherRewards,
      cmd ''smesher-stop'' ''Stop smeshing'' fn_stopSmeshing,
      cmd ''smesher-status'' ''Display smesher status'' fn_printSmeshingStatus,
      cmd ''smesher-post-status'' ''Display the proof of space status'' fn_printPostStatus,
      cmd ''smesher-post-providers'' ''Display the available proof of space providers''
        fn_printPostProviders,
      cmd ''smesher-start''
        ''Start smeshing using the current wallet account as the rewards account''
        fn_startSmeshing,
      cmd ''dbg-all-accounts'' ''Display all global state accounts'' fn_printAllAccounts,
      cmd ''quit'' ''Quit this app'' fn_quit]"

definition initializeCommands :: "'c repl \<Rightarrow> 'c repl" where
  "initializeCommands r = r\<lparr>commands := accountCommands (clientOpen r) @ otherCommands\<rparr>"

text \<open>
  \<^verbatim>\<open>
  func (r *repl) executor(text string) {
      for _, c := range r.commands {
          if len(text) >= len(c.text) && text[:len(c.text)] == c.text {
              r.input = text
              c.fn()
              return
          }
      }
      fmt.Println(printPrefix, "invalid command.")
  }
  \<close>
  \<open>executor_loop\<close> is the search of the loop; \<open>call\<close> runs a method of the REPL, which
  may panic.
\<close>

fun executor_loop :: "command list \<Rightarrow> string \<Rightarrow> command option" where
  "executor_loop [] text = None"
| "executor_loop (c # cs) text =
     (if length text \<ge> length (command_text c)
         \<and> take (length (command_text c)) text = command_text c
      then Some c else executor_loop cs text)"

definition executor :: "(handler \<Rightarrow> 'c repl \<Rightarrow> unit outcome \<times> 'c repl) \<Rightarrow> 'c repl \<Rightarrow> string
    \<Rightarrow> unit outcome \<times> 'c repl" where
  "executor call r text =
     (case executor_loop (commands r) text of
        Some c \<Rightarrow> call (command_fn c) (r\<lparr>input := text\<rparr>)
      | None \<Rightarrow> (Return (), console_write (Println [printPrefix, ''invalid command.'']) r))"

section \<open>Account commands\<close>

text \<open>
  \<^verbatim>\<open>
  func (r *repl) createAccount() {
      fmt.Println(printPrefix, "Create a new account")
      alias := inputNotBlank(createAccountMsg)
      ac, err := r.client.CreateAccount(alias)
      if err != nil { log.Error("Failed to create a new account: %v", err); return }
      err = r.client.StoreAccounts()
      if err != nil { log.Error("Failed to save the new account: %v", err); return }
      fmt.Printf("%s Created account: %s, address: %s \n", printPrefix, ac.Name, ac.Address().String())
  }
  \<close>
\<close>

definition createAccount :: "'c Client \<Rightarrow> operator \<Rightarrow> 'c repl \<Rightarrow> 'c repl" where
  "createAccount cl ui r0 =
     (let r = console_write (Println [printPrefix, ''Create a new account'']) r0;
          alias = inputNotBlank ui createAccountMsg
      in case CreateAccount cl alias (client r) of
           (Inl err, c) \<Rightarrow>
             console_write (Log (LogError ''Failed to create a new account: %v'' [] err))
               (r\<lparr>client := c\<rparr>)
         | (Inr ac, c) \<Rightarrow>
             (case StoreAccounts cl c of
                (Some err, c') \<Rightarrow>
                  console_write (Log (LogError ''Failed to save the new account: %v'' [] err))
                    (r\<lparr>client := c'\<rparr>)
              | (None, c') \<Rightarrow>
                  console_write
                    (PrintfAccount (''%s Created account: %s, address: %s '' @ [CHR 0x0A]) ac)
                    (r\<lparr>client := c'\<rparr>)))"

text \<open>
  \<^verbatim>\<open>
  func (r *repl) chooseAccount() {
      accs, err := r.client.ListAccounts()
      if err != nil { log.Error("failure to choose account", err); return }
      if len(accs) == 0 { r.createAccount(); return }
      fmt.Println(printPrefix, "Choose an account to load:")
      accNumber := multipleChoice(accs)
      if accNumber == 0 { fmt.Println("none selected"); return }
      accNumber = accNumber - 1
      err = r.client.SetCurrentAccount(accNumber)
      if err != nil { log.Error("failure to set current account", err); return }
      account, err := r.client.CurrentAccount()
      if err != nil { panic("wtf") }
      fmt.Printf("%s Loaded account alias: `%s`, address: %s \n", printPrefix, account.Name, account.Address().String())
  }
  \<close>
\<close>

definition chooseAccount :: "'c Client \<Rightarrow> operator \<Rightarrow> 'c repl \<Rightarrow> unit outcome \<times> 'c repl" where
  "chooseAccount cl ui r0 =
     (case ListAccounts cl (client r0) of
        (Inl err, c) \<Rightarrow>
          (Return (),
           console_write (Log (LogError ''failure to choose account'' [] err)) (r0\<lparr>client := c\<rparr>))
      | (Inr accs, c) \<Rightarrow>
          (if length accs = 0 then (Return (), createAccount cl ui (r0\<lparr>client := c\<rparr>))
           else
             (let r = console_write (Println [printPrefix, ''Choose an account to load:''])
                        (r0\<lparr>client := c\<rparr>);
                  accNumber = multipleChoice ui accs
              in if accNumber = 0 then (Return (), console_write (Println [''none selected'']) r)
                 else
                   (case SetCurrentAccount cl (accNumber - 1) (client r) of
                      (Some err, c1) \<Rightarrow>
                        (Return (),
                         console_write (Log (LogError ''failure to set current account'' [] err))
                           (r\<lparr>client := c1\<rparr>))
                    | (None, c1) \<Rightarrow>
                        (case CurrentAccount cl c1 of
                           (Inl err, c2) \<Rightarrow> (Panic ''wtf'', r\<lparr>client := c2\<rparr>)
                         | (Inr account, c2) \<Rightarrow>
                             (Return (),
                              console_write
                                (PrintfAccount
                                   (''%s Loaded account alias: `%s`, address: %s '' @ [CHR 0x0A])
                                   account)
                                (r\<lparr>client := c2\<rparr>)))))))"

text \<open>
  \<^verbatim>\<open>
  func (r *repl) getCurrent() (acc *common.LocalAccount, err error) {
      acc, err = r.client.CurrentAccount()
      if err != nil {
          r.chooseAccount()
          acc, err = r.client.CurrentAccount()
      }
      return
  }
  \<close>
\<close>

definition getCurrent :: "'c Client \<Rightarrow> operator \<Rightarrow> 'c repl
    \<Rightarrow> (error + LocalAccount) outcome \<times> 'c repl" where
  "getCurrent cl ui r =
     (case CurrentAccount cl (client r) of
        (Inr acc, c) \<Rightarrow> (Return (Inr acc), r\<lparr>client := c\<rparr>)
      | (Inl err, c) \<Rightarrow>
          (case chooseAccount cl ui (r\<lparr>client := c\<rparr>) of
             (Panic msg, r') \<Rightarrow> (Panic msg, r')
           | (Return _, r') \<Rightarrow>
               (case CurrentAccount cl (client r') of
                  (res, c') \<Rightarrow> (Return res, r'\<lparr>client := c'\<rparr>))))"

text \<open>
  Running a method of the REPL: the two account commands above, and \<open>others\<close> for the
  methods defined outside the sources.
\<close>

definition call_fn :: "'c Client \<Rightarrow> operator \<Rightarrow> (handler \<Rightarrow> 'c repl \<Rightarrow> unit outcome \<times> 'c repl)
    \<Rightarrow> handler \<Rightarrow> 'c repl \<Rightarrow> unit outcome \<times> 'c repl" where
  "call_fn cl ui others h r =
     (if h = fn_createAccount then (Return (), createAccount cl ui r)
      else if h = fn_chooseAccount then chooseAccount cl ui r
      else others h r)"

section \<open>The account operations behind the interface\<close>

text \<open>
  Modelled from the spec: no implementation of the REPL's \<open>Client\<close> interface is among
  the sources. The interface itself is: its \<open>CurrentAccount\<close> returns an account and an
  error and its \<open>SetCurrentAccount\<close> takes a position, unlike the backend's methods of
  the same names, which are modelled above from their source and are not these. The
  operations follow the contracts of the spec's account store, of its session state and
  of the interface it exposes to the command layer: \<open>createAccount\<close> fails on an alias
  already present and otherwise appends the new account and returns it, without
  persisting, and the first account created becomes the current one while later
  creations leave the selection as it is; listing gives the aliases in creation order;
  selection by position fails out of range and leaves the state unchanged;
  \<open>currentAccount\<close> fails when nothing is selected; persisting writes the whole sequence
  or fails with an I/O error. The current account is an index into the store. The fresh
  key pair is a parameter.
\<close>

record core =
  accounts :: "LocalAccount list"
  current :: "nat option"
  saved :: "LocalAccount list option"
  writable :: bool

definition core_CreateAccount :: "byte list \<times> byte list \<Rightarrow> string \<Rightarrow> core
    \<Rightarrow> (error + LocalAccount) \<times> core" where
  "core_CreateAccount keys alias c =
     (if alias \<in> set (map Name (accounts c)) then (Inl DuplicateAliasError, c)
      else
        (let ac = \<lparr>Name = alias, PubKey = fst keys, PrivKey = snd keys\<rparr>;
             c' = c\<lparr>accounts := accounts c @ [ac]\<rparr>
         in (Inr ac, if accounts c = [] then c'\<lparr>current := Some 0\<rparr> else c')))"

definition core_CurrentAccount :: "core \<Rightarrow> (error + LocalAccount) \<times> core" where
  "core_CurrentAccount c =
     (case current c of
        None \<Rightarrow> (Inl NoCurrentAccountError, c)
      | Some i \<Rightarrow>
          (if i < length (accounts c) then (Inr (accounts c ! i), c)
           else (Inl NoCurrentAccountError, c)))"

definition core_SetCurrentAccount :: "int \<Rightarrow> core \<Rightarrow> error option \<times> core" where
  "core_SetCurrentAccount accountNumber c =
     (if 0 \<le> accountNumber \<and> accountNumber < int (length (accounts c))
      then (None, c\<lparr>current := Some (nat accountNumber)\<rparr>)
      else (Some IndexOutOfRangeError, c))"

definition core_ListAccounts :: "core \<Rightarrow> (error + string list) \<times> core" where
  "core_ListAccounts c = (Inr (map Name (accounts c)), c)"

definition core_StoreAccounts :: "core \<Rightarrow> error option \<times> core" where
  "core_StoreAccounts c =
     (if writable c then (None, c\<lparr>saved := Some (accounts c)\<rparr>) else (Some IOError, c))"

definition core_client :: "byte list \<times> byte list \<Rightarrow> core Client" where
  "core_client keys =
     \<lparr>CreateAccount = core_CreateAccount keys,
      CurrentAccount = core_CurrentAccount,
      SetCurrentAccount = core_SetCurrentAccount,
      ListAccounts = core_ListAccounts,
      StoreAccounts = core_StoreAccounts\<rparr>"

section \<open>Example values\<close>

text \<open>
  Concrete collaborators, states and operators at which the theorems below are
  evaluated. The example gRPC client counts the transactions submitted to it and
  answers with the bytes it received; the example loader reports a malformed file.
\<close>

definition alice :: LocalAccount where
  "alice = \<lparr>Name = ''alice'', PubKey = replicate 32 1, PrivKey = replicate 64 2\<rparr>"

definition bob :: LocalAccount where
  "bob = \<lparr>Name = ''bob'', PubKey = replicate 32 3, PrivKey = replicate 64 4\<rparr>"

definition example_env :: "(nat, byte list) collaborators" where
  "example_env =
     \<lparr>path_Join = (\<lambda>dir file. dir @ ''/'' @ file),
      LoadAccounts = (\<lambda>path. Inl CorruptStoreError),
      NewGRPCClient = (\<lambda>server port. 0),
      Connect = (\<lambda>g. (None, g)),
      SubmitCoinTransaction = (\<lambda>b g. (Inr b, Suc g)),
      ed25519_sign = (\<lambda>key msg. replicate 64 9)\<rparr>"

definition example_backend :: "nat WalletBackend" where
  "example_backend =
     \<lparr>GRPCClient = 0, Store = [alice], accountsFilePath = ''data/accounts.json'',
      currentAccount = Some alice\<rparr>"

definition empty_core :: core where
  "empty_core = \<lparr>accounts = [], current = None, saved = None, writable = True\<rparr>"

definition two_account_core :: core where
  "two_account_core =
     \<lparr>accounts = [alice, bob], current = None, saved = Some [alice, bob], writable = True\<rparr>"

definition example_operator :: operator where
  "example_operator = \<lparr>inputNotBlank = (\<lambda>p. ''alice''), multipleChoice = (\<lambda>accs. 2)\<rparr>"

definition example_repl :: "'c \<Rightarrow> 'c repl" where
  "example_repl c =
     initializeCommands \<lparr>commands = [], client = c, clientOpen = True, input = [], out = []\<rparr>"

text \<open>A client that only records the calls it receives; creating an account fails.\<close>

definition recording_client :: "string list Client" where
  "recording_client =
     \<lparr>CreateAccount = (\<lambda>alias c. (Inl DuplicateAliasError, c @ [''CreateAccount''])),
      CurrentAccount = (\<lambda>c. (Inl NoCurrentAccountError, c @ [''CurrentAccount''])),
      SetCurrentAccount = (\<lambda>n c. (None, c @ [''SetCurrentAccount''])),
      ListAccounts = (\<lambda>c. (Inr [], c @ [''ListAccounts''])),
      StoreAccounts = (\<lambda>c. (None, c @ [''StoreAccounts'']))\<rparr>"

text \<open>Running a method only records which method ran.\<close>

definition recording_call :: "handler \<Rightarrow> handler list repl \<Rightarrow> unit outcome \<times> handler list repl" where
  "recording_call h r = (Return (), r\<lparr>client := client r @ [h]\<rparr>)"

section \<open>The encoding of a transaction\<close>

lemma bit_horner_bytes:
  "bit (horner_sum uint 256 xs) n \<longleftrightarrow> n div 8 < length xs \<and> bit (xs ! (n div 8)) (n mod 8)"
  for xs :: "8 word list"
  using bit_horner_sum_uint_exp_iff [of xs n] by simp

lemma bit_rcat_bytes:
  "bit (word_rcat ws :: 64 word) n \<longleftrightarrow>
     n < 64 \<and> n div 8 < length ws \<and> bit (rev ws ! (n div 8)) (n mod 8)"
  for ws :: "8 word list"
  by (simp add: word_rcat_def bit_word_of_int_iff bit_horner_bytes)

lemma rev_EncodeUhyper:
  "rev (EncodeUhyper v) = map (\<lambda>i. ucast (drop_bit (8 * i) v)) [0..<8]"
  by (simp add: EncodeUhyper_def upt_rec)

lemma length_EncodeUhyper: "length (EncodeUhyper v) = 8"
  by (simp add: EncodeUhyper_def)

text \<open>The eight bytes, read most significant first, are the integer again.\<close>

lemma EncodeUhyper_big_endian: "word_rcat (EncodeUhyper v) = v"
proof (rule bit_word_eqI)
  fix n assume "n < LENGTH(64)"
  then have n: "n < 64" by simp
  then have d: "n div 8 < 8" by simp
  have e: "8 * (n div 8) + n mod 8 = n" by simp
  have m: "n mod 8 < 8" by simp
  have "rev (EncodeUhyper v) ! (n div 8) = ucast (drop_bit (8 * (n div 8)) v)"
    using d unfolding rev_EncodeUhyper by simp
  then show "bit (word_rcat (EncodeUhyper v) :: 64 word) n = bit v n"
    using n d m e
    by (simp only: bit_rcat_bytes length_EncodeUhyper) (simp add: bit_ucast_iff bit_drop_bit_eq)
qed

lemma InterfaceToBytes_encode: "InterfaceToBytes i = encode i"
  by (simp add: InterfaceToBytes_def Marshal_def split: sum.splits)

lemma encode_inner_value:
  "encode (inner_value t) =
     Inr (EncodeUhyper (AccountNonce t) @ EncodeUhyper (Amount t) @ EncodeFixedOpaque (Recipient t)
          @ EncodeUhyper (GasLimit t) @ EncodeUhyper (Price t))"
  by (simp add: inner_value_def)

lemma EncodeFixedOpaque_aligned: "length v mod 4 = 0 \<Longrightarrow> EncodeFixedOpaque v = v"
  by (simp add: EncodeFixedOpaque_def)

lemma Inner_Transfer_tx:
  "Inner (Transfer_tx recipient nonce amount gasPrice gasLimit) =
     \<lparr>AccountNonce = nonce, Amount = amount, Recipient = recipient, GasLimit = gasLimit,
      Price = gasPrice\<rparr>"
  by (simp add: Transfer_tx_def zero_tx_def)

lemma Signature_Transfer_tx:
  "Signature (Transfer_tx recipient nonce amount gasPrice gasLimit) = replicate SignatureSize 0"
  by (simp add: Transfer_tx_def zero_tx_def)

lemma Transfer_buf_bytes:
  "Transfer_buf (Transfer_tx recipient nonce amount gasPrice gasLimit) =
     EncodeUhyper nonce @ EncodeUhyper amount @ EncodeFixedOpaque recipient
       @ EncodeUhyper gasLimit @ EncodeUhyper gasPrice"
  by (simp add: Transfer_buf_def InterfaceToBytes_encode encode_inner_value Inner_Transfer_tx)

lemma length_copy: "length (copy dst src) = length dst"
  by (simp add: copy_def)

text \<open>
  With a private key of the right length \<open>Transfer\<close> submits the signed buffer followed by
  the 64 bytes of the signature array.
\<close>

lemma Transfer_signed:
  assumes "length key = PrivateKeySize"
  shows "Transfer env w recipient nonce amount gasPrice gasLimit key =
     (let buf = Transfer_buf (Transfer_tx recipient nonce amount gasPrice gasLimit);
          sg = copy (replicate SignatureSize 0) (ed25519_sign env key buf)
      in case SubmitCoinTransaction env (buf @ sg) (GRPCClient w) of
           (res, g) \<Rightarrow> (Return res, w\<lparr>GRPCClient := g\<rparr>))"
  using assms
  by (simp add: Transfer_def Sign2_def Let_def InterfaceToBytes_encode signed_value_def
      encode_inner_value Inner_Transfer_tx Signature_Transfer_tx EncodeFixedOpaque_aligned
      length_copy SignatureSize_def Transfer_buf_bytes)

text \<open>
  C1. For every transaction and every 64-byte signature, the encoding of the signed
  transaction is the encoding of the unsigned fields followed by the encoding of the
  signature, which is the signature itself; all three come from \<open>InterfaceToBytes\<close>.
  With a well-formed key, the bytes \<open>Transfer\<close> submits are the signed buffer followed by
  the signature array.
\<close>

theorem Transfer_wire_encoding:
  assumes "length sig = SignatureSize" and "length key = PrivateKeySize"
  shows "(\<exists>u. InterfaceToBytes (Pointer (inner_value (Inner tx))) = Inr u
            \<and> InterfaceToBytes (ByteArray sig) = Inr sig
            \<and> InterfaceToBytes (Pointer (signed_value (tx\<lparr>Signature := sig\<rparr>))) = Inr (u @ sig))
       \<and> Transfer env w recipient nonce amount gasPrice gasLimit key =
           (let buf = Transfer_buf (Transfer_tx recipient nonce amount gasPrice gasLimit);
                sg = copy (replicate SignatureSize 0) (ed25519_sign env key buf)
            in case SubmitCoinTransaction env (buf @ sg) (GRPCClient w) of
                 (res, g) \<Rightarrow> (Return res, w\<lparr>GRPCClient := g\<rparr>))"
proof -
  have "InterfaceToBytes (ByteArray sig) = Inr sig"
    using assms(1)
    by (simp add: InterfaceToBytes_encode EncodeFixedOpaque_aligned SignatureSize_def)
  moreover have "InterfaceToBytes (Pointer (signed_value (tx\<lparr>Signature := sig\<rparr>))) =
      Inr (EncodeUhyper (AccountNonce (Inner tx)) @ EncodeUhyper (Amount (Inner tx))
           @ EncodeFixedOpaque (Recipient (Inner tx)) @ EncodeUhyper (GasLimit (Inner tx))
           @ EncodeUhyper (Price (Inner tx)) @ sig)"
    using assms(1)
    by (simp add: InterfaceToBytes_encode signed_value_def encode_inner_value
        EncodeFixedOpaque_aligned SignatureSize_def)
  moreover have "InterfaceToBytes (Pointer (inner_value (Inner tx))) =
      Inr (EncodeUhyper (AccountNonce (Inner tx)) @ EncodeUhyper (Amount (Inner tx))
           @ EncodeFixedOpaque (Recipient (Inner tx)) @ EncodeUhyper (GasLimit (Inner tx))
           @ EncodeUhyper (Price (Inner tx)))"
    by (simp add: InterfaceToBytes_encode encode_inner_value)
  ultimately show ?thesis
    using Transfer_signed [OF assms(2)] by simp
qed

theorem Transfer_wire_encoding_witness:
  "fst (Transfer example_env example_backend (replicate 20 7) 1 500000000000 1 100
          (replicate 64 2)) =
     Return (Inr ([0, 0, 0, 0, 0, 0, 0, 1] @ [0, 0, 0, 116, 106, 82, 136, 0] @ replicate 20 7
                  @ [0, 0, 0, 0, 0, 0, 0, 100] @ [0, 0, 0, 0, 0, 0, 0, 1] @ replicate 64 9))"
  using Transfer_wire_encoding [of "replicate 64 9" "replicate 64 2" zero_tx example_env
      example_backend "replicate 20 7" 1 500000000000 1 100]
  by (simp add: SignatureSize_def PrivateKeySize_def example_env_def Transfer_buf_bytes
      EncodeFixedOpaque_def EncodeUhyper_def copy_def)

text \<open>
  C2. The buffer that \<open>Transfer\<close> signs is the nonce, the amount, the recipient address,
  the gas limit and the gas price, in this order: each integer as its eight bytes, most
  significant first, the address as its twenty bytes, and nothing else (52 bytes in all).
\<close>

theorem Transfer_signing_payload:
  assumes "length recipient = AddressLength"
  shows "Transfer_buf (Transfer_tx recipient nonce amount gasPrice gasLimit) =
           EncodeUhyper nonce @ EncodeUhyper amount @ recipient
             @ EncodeUhyper gasLimit @ EncodeUhyper gasPrice
       \<and> length (Transfer_buf (Transfer_tx recipient nonce amount gasPrice gasLimit)) = 52
       \<and> map length [EncodeUhyper nonce, EncodeUhyper amount, recipient,
            EncodeUhyper gasLimit, EncodeUhyper gasPrice] = [8, 8, 20, 8, 8]
       \<and> map word_rcat [EncodeUhyper nonce, EncodeUhyper amount,
            EncodeUhyper gasLimit, EncodeUhyper gasPrice] = [nonce, amount, gasLimit, gasPrice]"
  using assms
  by (simp add: Transfer_buf_bytes EncodeFixedOpaque_aligned AddressLength_def
      length_EncodeUhyper EncodeUhyper_big_endian)

theorem Transfer_signing_payload_witness:
  "Transfer_buf (Transfer_tx (replicate 20 7) 1 500000000000 1 100) =
     [0, 0, 0, 0, 0, 0, 0, 1] @ [0, 0, 0, 116, 106, 82, 136, 0] @ replicate 20 7
       @ [0, 0, 0, 0, 0, 0, 0, 100] @ [0, 0, 0, 0, 0, 0, 0, 1]"
  using Transfer_signing_payload [of "replicate 20 7" 1 500000000000 1 100]
  by (simp add: AddressLength_def EncodeUhyper_def)

section \<open>Failures of \<open>Transfer\<close> and of the start-up\<close>

text \<open>
  C3, as stated, fails: with malformed key material (here the empty key) signing fails,
  and \<open>Transfer\<close> does not return an error; the panic of \<open>Sign2\<close> leaves it.
\<close>

theorem Transfer_signing_failure_counterexample:
  "Sign2 (ed25519_sign example_env) []
       (Transfer_buf (Transfer_tx (replicate 20 7) 1 5 1 100)) =
     Panic ''ed25519: bad private key length''
   \<and> (\<forall>e. fst (Transfer example_env example_backend (replicate 20 7) 1 5 1 100 [])
          \<noteq> Return (Inl e))"
  by (simp add: Transfer_def Sign2_def PrivateKeySize_def Let_def)

text \<open>
  C3, amended. When signing fails, that is when the private key does not have 64 bytes,
  \<open>Sign2\<close> panics and so does \<open>Transfer\<close>: it returns neither an error nor bytes, nothing
  is retried, nothing is submitted (the result is the same for every submission
  collaborator) and the backend is as it was. The encoding of the unsigned fields of a
  transaction always succeeds.
\<close>

theorem Transfer_signing_failure:
  assumes "length key \<noteq> PrivateKeySize"
  shows "Sign2 (ed25519_sign env) key
             (Transfer_buf (Transfer_tx recipient nonce amount gasPrice gasLimit)) =
           Panic ''ed25519: bad private key length''
       \<and> Transfer env w recipient nonce amount gasPrice gasLimit key =
           (Panic ''ed25519: bad private key length'', w)
       \<and> (\<exists>u. InterfaceToBytes
                 (Pointer (inner_value
                    (Inner (Transfer_tx recipient nonce amount gasPrice gasLimit)))) = Inr u)"
  using assms
  by (simp add: Transfer_def Sign2_def Let_def InterfaceToBytes_encode encode_inner_value)

theorem Transfer_signing_failure_witness:
  "Transfer example_env example_backend (replicate 20 7) 1 5 1 100 [] =
     (Panic ''ed25519: bad private key length'', example_backend)"
  using Transfer_signing_failure [of "[]" example_env "replicate 20 7" 1 5 1 100 example_backend]
  by (simp add: PrivateKeySize_def)

text \<open>
  C4, as stated, fails: when the loader reports a malformed accounts file and the
  connection succeeds, \<open>NewWalletBackend\<close> returns a backend with an empty store, not the
  error.
\<close>

theorem NewWalletBackend_load_failure_counterexample:
  "LoadAccounts example_env (path_Join example_env ''data'' accountsFileName) =
     Inl CorruptStoreError
   \<and> fst (NewWalletBackend example_env ''data'' ''localhost'' 9092) =
       Inr \<lparr>GRPCClient = 0, Store = [], accountsFilePath = ''data/accounts.json'',
            currentAccount = None\<rparr>"
  by (simp add: NewWalletBackend_def example_env_def accountsFileName_def Let_def)

text \<open>
  C4, amended. When loading the accounts file fails, \<open>NewWalletBackend\<close> logs the error
  and goes on with an empty store by itself; the load error is not returned. What it
  returns depends on the connection alone: the connection error, or the backend with the
  empty store and no current account.
\<close>

theorem NewWalletBackend_load_failure:
  assumes "LoadAccounts env (path_Join env dataDir accountsFileName) = Inl err"
  shows "NewWalletBackend env dataDir grpcServer grpcPort =
     (case Connect env (NewGRPCClient env grpcServer grpcPort) of
        (Some cerr, g) \<Rightarrow>
          (Inl cerr,
           [LogError ''cannot load account from file %s: %s''
              [path_Join env dataDir accountsFileName] err])
      | (None, g) \<Rightarrow>
          (Inr \<lparr>GRPCClient = g, Store = [],
                accountsFilePath = path_Join env dataDir accountsFileName,
                currentAccount = None\<rparr>,
           [LogError ''cannot load account from file %s: %s''
              [path_Join env dataDir accountsFileName] err]))"
  using assms
  by (simp add: NewWalletBackend_def Let_def split: prod.splits option.splits)

theorem NewWalletBackend_load_failure_witness:
  "NewWalletBackend example_env ''data'' ''localhost'' 9092 =
     (Inr \<lparr>GRPCClient = 0, Store = [], accountsFilePath = ''data/accounts.json'',
           currentAccount = None\<rparr>,
      [LogError ''cannot load account from file %s: %s'' [''data/accounts.json'']
         CorruptStoreError])"
  using NewWalletBackend_load_failure [of example_env "''data''" CorruptStoreError
      "''localhost''" 9092]
  by (simp add: example_env_def accountsFileName_def)

text \<open>
  C9. Whatever \<open>Transfer\<close> does (a panic of the signer, an encoding error, or any answer
  of the remote call, an error or a timeout included), the store, the current account
  and the path of the accounts file are as before: only the state of the gRPC client
  can differ. The backend has no field for a nonce.
\<close>

theorem Transfer_leaves_accounts:
  "Store (snd (Transfer env w recipient nonce amount gasPrice gasLimit key)) = Store w
   \<and> currentAccount (snd (Transfer env w recipient nonce amount gasPrice gasLimit key)) =
       currentAccount w
   \<and> accountsFilePath (snd (Transfer env w recipient nonce amount gasPrice gasLimit key)) =
       accountsFilePath w
   \<and> snd (Transfer env w recipient nonce amount gasPrice gasLimit key) =
       w\<lparr>GRPCClient :=
           GRPCClient (snd (Transfer env w recipient nonce amount gasPrice gasLimit key))\<rparr>"
  by (simp add: Transfer_def Let_def split: outcome.splits sum.splits prod.splits)

theorem Transfer_leaves_accounts_witness:
  "snd (Transfer example_env example_backend (replicate 20 7) 1 5 1 100 (replicate 64 2)) =
     example_backend\<lparr>GRPCClient := 1\<rparr>
   \<and> snd (Transfer example_env example_backend (replicate 20 7) 1 5 1 100 []) =
     example_backend"
proof -
  have submitted:
    "snd (Transfer example_env example_backend (replicate 20 7) 1 5 1 100 (replicate 64 2)) =
       example_backend\<lparr>GRPCClient := 1\<rparr>"
    by (simp add: Transfer_signed PrivateKeySize_def example_env_def example_backend_def Let_def)
  have panicked:
    "snd (Transfer example_env example_backend (replicate 20 7) 1 5 1 100 []) = example_backend"
    by (simp add: Transfer_def Sign2_def PrivateKeySize_def Let_def)
  show ?thesis
    using submitted panicked
      Transfer_leaves_accounts [of example_env example_backend "replicate 20 7" 1 5 1 100
        "replicate 64 2"]
    by simp
qed

section \<open>Dispatch of commands\<close>

lemma go_prefix: "(length text \<ge> length p \<and> take (length p) text = p) \<longleftrightarrow> prefix p text"
  by (metis prefix_def append_eq_conv_conj prefix_length_le take_is_prefix)

lemma executor_loop_find:
  "executor_loop cs text = find (\<lambda>c. prefix (command_text c) text) cs"
  by (induction cs) (simp_all add: go_prefix)

text \<open>
  C7. The executor runs the method of the first command of the list whose text is a
  prefix of the input, after storing the input; when no command's text is a prefix of
  the input it runs no method and prints that the command is invalid.
\<close>

theorem executor_dispatch:
  "executor call r text =
     (case find (\<lambda>c. prefix (command_text c) text) (commands r) of
        Some c \<Rightarrow> call (command_fn c) (r\<lparr>input := text\<rparr>)
      | None \<Rightarrow> (Return (), r\<lparr>out := out r @ [Println [printPrefix, ''invalid command.'']]\<rparr>))"
  by (simp add: executor_def executor_loop_find console_write_def split: option.splits)

theorem executor_dispatch_witness:
  "client (snd (executor recording_call (example_repl []) ''smesher-rewards-address 0x01'')) =
     [fn_printRewardsAddress]
   \<and> client (snd (executor recording_call (example_repl []) ''smesher-rewards'')) =
     [fn_printCurrentSmesherRewards]
   \<and> input (snd (executor recording_call (example_repl []) ''smesher-rewards'')) =
     ''smesher-rewards''
   \<and> client (snd (executor recording_call (example_repl []) ''help'')) = []
   \<and> out (snd (executor recording_call (example_repl []) ''help'')) =
     [Println [''>'', ''invalid command.'']]"
  using executor_dispatch [of recording_call "example_repl []" "''smesher-rewards-address 0x01''"]
    executor_dispatch [of recording_call "example_repl []" "''smesher-rewards''"]
    executor_dispatch [of recording_call "example_repl []" "''help''"]
  by (simp add: example_repl_def initializeCommands_def accountCommands_def otherCommands_def
      cmd_def recording_call_def printPrefix_def)

lemma loop_stream_account:
  "executor_loop (accountCommands b @ otherCommands) ''state-stream-account'' =
     Some (cmd ''state-stream-account'' ''Stream account updates'' fn_printAccountRewardsStream)"
  by (simp add: accountCommands_def otherCommands_def cmd_def)

lemma loop_stream_rewards:
  "executor_loop (accountCommands b @ otherCommands) ''state-stream-rewards'' =
     Some (cmd ''state-stream-rewards'' ''Stream new rewards for an account''
             fn_printAccountRewardsStream)"
  by (simp add: accountCommands_def otherCommands_def cmd_def)

text \<open>
  C8 does not hold of the code: the input \<open>state-stream-account\<close> runs
  \<open>printAccountRewardsStream\<close>, the method that \<open>state-stream-rewards\<close> runs.
\<close>

theorem stream_account_runs_rewards_stream:
  "executor call (initializeCommands r) ''state-stream-account'' =
     call fn_printAccountRewardsStream ((initializeCommands r)\<lparr>input := ''state-stream-account''\<rparr>)
   \<and> executor call (initializeCommands r) ''state-stream-rewards'' =
     call fn_printAccountRewardsStream ((initializeCommands r)\<lparr>input := ''state-stream-rewards''\<rparr>)"
  by (simp add: executor_def initializeCommands_def loop_stream_account loop_stream_rewards
      cmd_def)

section \<open>Creating and selecting accounts\<close>

lemma loop_account_new:
  "executor_loop (accountCommands True @ otherCommands) ''account-new'' =
     Some (cmd ''account-new'' ''Create a new account (key pair) and set as current''
             fn_createAccount)"
  by (simp add: accountCommands_def cmd_def)

text \<open>
  C5. When the store holds no accounts, the flow that creates an account leaves the new
  account, the only one of the store, as the current account: the query for the current
  account returns it, and so does \<open>getCurrent\<close>, which reaches the creation through the
  selection flow; the operator selects nothing.
\<close>

theorem first_account_becomes_current:
  assumes "accounts (client r) = []"
  shows "accounts (client (createAccount (core_client keys) ui r)) =
           [\<lparr>Name = inputNotBlank ui createAccountMsg, PubKey = fst keys, PrivKey = snd keys\<rparr>]
       \<and> current (client (createAccount (core_client keys) ui r)) = Some 0
       \<and> fst (CurrentAccount (core_client keys)
                 (client (createAccount (core_client keys) ui r))) =
           Inr \<lparr>Name = inputNotBlank ui createAccountMsg, PubKey = fst keys, PrivKey = snd keys\<rparr>
       \<and> fst (getCurrent (core_client keys) ui r) =
           Return (Inr \<lparr>Name = inputNotBlank ui createAccountMsg, PubKey = fst keys,
                        PrivKey = snd keys\<rparr>)"
proof -
  let ?new = "\<lparr>Name = inputNotBlank ui createAccountMsg, PubKey = fst keys, PrivKey = snd keys\<rparr>"
  let ?r' = "createAccount (core_client keys) ui r"
  have created: "accounts (client ?r') = [?new]" "current (client ?r') = Some 0"
    using assms
    by (simp_all add: createAccount_def console_write_def core_client_def
        core_CreateAccount_def core_StoreAccounts_def Let_def)
  then have query: "CurrentAccount (core_client keys) (client ?r') = (Inr ?new, client ?r')"
    by (simp add: core_client_def core_CurrentAccount_def)
  have none: "CurrentAccount (core_client keys) (client r) = (Inl NoCurrentAccountError, client r)"
    using assms by (simp add: core_client_def core_CurrentAccount_def split: option.splits)
  have listed: "ListAccounts (core_client keys) (client r) = (Inr [], client r)"
    using assms by (simp add: core_client_def core_ListAccounts_def)
  have chosen: "chooseAccount (core_client keys) ui r = (Return (), ?r')"
    by (simp add: chooseAccount_def listed)
  have "getCurrent (core_client keys) ui r = (Return (Inr ?new), ?r'\<lparr>client := client ?r'\<rparr>)"
    by (simp add: getCurrent_def none chosen query)
  then show ?thesis
    using created query by simp
qed

theorem first_account_becomes_current_witness:
  "current (client (snd (executor
       (call_fn (core_client (replicate 32 1, replicate 64 2)) example_operator
          (\<lambda>h r. (Return (), r)))
       (example_repl empty_core) ''account-new''))) = Some 0
   \<and> fst (CurrentAccount (core_client (replicate 32 1, replicate 64 2))
          (client (snd (executor
             (call_fn (core_client (replicate 32 1, replicate 64 2)) example_operator
                (\<lambda>h r. (Return (), r)))
             (example_repl empty_core) ''account-new'')))) = Inr alice
   \<and> fst (getCurrent (core_client (replicate 32 1, replicate 64 2)) example_operator
          (example_repl empty_core)) = Return (Inr alice)"
proof -
  have dispatched:
    "executor (call_fn (core_client (replicate 32 1, replicate 64 2)) example_operator
         (\<lambda>h r. (Return (), r))) (example_repl empty_core) ''account-new'' =
       (Return (), createAccount (core_client (replicate 32 1, replicate 64 2)) example_operator
          ((example_repl empty_core)\<lparr>input := ''account-new''\<rparr>))"
    by (simp add: executor_def example_repl_def initializeCommands_def loop_account_new cmd_def
        call_fn_def)
  have stored: "accounts (client ((example_repl empty_core)\<lparr>input := ''account-new''\<rparr>)) = []"
    "accounts (client (example_repl empty_core)) = []"
    by (simp_all add: example_repl_def initializeCommands_def empty_core_def)
  have new: "\<lparr>Name = inputNotBlank example_operator createAccountMsg,
       PubKey = fst (replicate 32 1, replicate 64 2),
       PrivKey = snd (replicate 32 1, replicate 64 2)\<rparr> = alice"
    by (simp add: example_operator_def alice_def)
  show ?thesis
    using first_account_becomes_current [OF stored(1), of "(replicate 32 1, replicate 64 2)"
        example_operator]
      first_account_becomes_current [OF stored(2), of "(replicate 32 1, replicate 64 2)"
        example_operator]
    unfolding new dispatched by simp
qed

text \<open>
  C6, as stated, fails: with no account selected, although the store holds an account,
  the backend's \<open>CurrentAccount\<close> returns nil. It has no error result, so the query does
  not fail with an error.
\<close>

theorem CurrentAccount_nil_counterexample:
  "currentAccount (example_backend\<lparr>currentAccount := None\<rparr>) = None
   \<and> Store (example_backend\<lparr>currentAccount := None\<rparr>) = [alice]
   \<and> WalletBackend_CurrentAccount (example_backend\<lparr>currentAccount := None\<rparr>) = None"
  by (simp add: WalletBackend_CurrentAccount_def example_backend_def)

text \<open>
  C6, amended. With no account selected the backend's \<open>CurrentAccount\<close> returns nil,
  whatever the store holds: it reports no error and picks no account. The fallback is
  in the REPL's \<open>getCurrent\<close>: when the query of its client fails, it runs the selection
  flow and then asks once more, and what that second query answers is its result.
\<close>

theorem CurrentAccount_nil_fallback_in_repl:
  assumes "currentAccount w = None"
    and "CurrentAccount cl (client r) = (Inl err, c)"
  shows "WalletBackend_CurrentAccount w = None
       \<and> WalletBackend_CurrentAccount (w\<lparr>Store := st\<rparr>) = None
       \<and> getCurrent cl ui r =
           (case chooseAccount cl ui (r\<lparr>client := c\<rparr>) of
              (Panic msg, r') \<Rightarrow> (Panic msg, r')
            | (Return u, r') \<Rightarrow>
                (Return (fst (CurrentAccount cl (client r'))),
                 r'\<lparr>client := snd (CurrentAccount cl (client r'))\<rparr>))"
  using assms
  by (simp add: WalletBackend_CurrentAccount_def getCurrent_def
      split: prod.splits outcome.splits)

theorem CurrentAccount_nil_fallback_in_repl_witness:
  "WalletBackend_CurrentAccount (example_backend\<lparr>currentAccount := None\<rparr>) = None
   \<and> fst (getCurrent recording_client example_operator (example_repl [])) =
       Return (Inl NoCurrentAccountError)
   \<and> client (snd (getCurrent recording_client example_operator (example_repl []))) =
       [''CurrentAccount'', ''ListAccounts'', ''CreateAccount'', ''CurrentAccount'']"
  using CurrentAccount_nil_fallback_in_repl [of "example_backend\<lparr>currentAccount := None\<rparr>"
      recording_client "example_repl []" NoCurrentAccountError "[''CurrentAccount'']"
      "[]" example_operator]
  by (simp add: recording_client_def example_repl_def initializeCommands_def
      chooseAccount_def createAccount_def console_write_def)

text \<open>
  C10. In the flow that creates an account the client is left as \<open>CreateAccount\<close> left it
  when \<open>CreateAccount\<close> fails: \<open>StoreAccounts\<close> runs only after a success, on the state
  that \<open>CreateAccount\<close> produced.
\<close>

theorem createAccount_persists_after_success:
  "client (createAccount cl ui r) =
     (case CreateAccount cl (inputNotBlank ui createAccountMsg) (client r) of
        (Inl err, c) \<Rightarrow> c
      | (Inr ac, c) \<Rightarrow> snd (StoreAccounts cl c))"
  by (simp add: createAccount_def console_write_def Let_def
      split: prod.splits sum.splits option.splits)

theorem createAccount_persists_after_success_witness:
  "client (createAccount recording_client example_operator (example_repl [])) =
     [''CreateAccount'']
   \<and> saved (client (createAccount (core_client ([], [])) example_operator
                      (example_repl (two_account_core\<lparr>saved := None\<rparr>)))) = None"
  using createAccount_persists_after_success [of recording_client example_operator
      "example_repl []"]
    createAccount_persists_after_success [of "core_client ([], [])" example_operator
      "example_repl (two_account_core\<lparr>saved := None\<rparr>)"]
  by (simp add: recording_client_def example_repl_def initializeCommands_def core_client_def
      core_CreateAccount_def two_account_core_def example_operator_def alice_def bob_def)

end
